theory Spec2Isabelle
  imports Main "HOL-Library.Word"
begin

unbundle bit_operations_syntax

section \<open>Constants of the kernel interface\<close>

text \<open>
  The constant block of the package (the file that starts with
  \<^verbatim>\<open>// See uapi/linux/io_uring.h\<close>). Only the constants used by the ring
  controller or named by the specification are embedded.
\<close>

text \<open>\<^verbatim>\<open>FeatSingleMmap = (1 << 0)\<close>, under the heading
  \<^verbatim>\<open>io_uring_params->features flags\<close>.\<close>

definition FeatSingleMmap :: "32 word" where
  "FeatSingleMmap = push_bit 0 1"

text \<open>\<^verbatim>\<open>SetupIOPoll uint = (1 << 0)\<close>, under the heading
  \<^verbatim>\<open>io_uring_setup() flags\<close>.\<close>

definition SetupIOPoll :: "32 word" where
  "SetupIOPoll = push_bit 0 1"

text \<open>Magic offsets for the application to mmap the data it needs.\<close>

definition SqRingOffset :: "64 word" where
  "SqRingOffset = 0"

definition CqRingOffset :: "64 word" where
  "CqRingOffset = 0x8000000"

definition SqeSOffset :: "64 word" where
  "SqeSOffset = 0x10000000"

text \<open>\<^verbatim>\<open>io_uring_register(2)\<close> opcodes and arguments (untyped constants).\<close>

definition RegisterBuffers :: int where
  "RegisterBuffers = 0"

definition UnregisterBuffers :: int where
  "UnregisterBuffers = 1"

definition RegisterFiles :: int where
  "RegisterFiles = 2"

definition UnregisterFiles :: int where
  "UnregisterFiles = 3"

definition RegisterEventfd :: int where
  "RegisterEventfd = 4"

definition UnregisteREventfd :: int where
  "UnregisteREventfd = 5"

section \<open>Data model\<close>

text \<open>
  Modelled from the spec: the ring-state type is declared outside the two source
  files; the controller only names \<^verbatim>\<open>RingStateEmpty\<close>. The specification gives the
  tri-state flag Empty, Filling, Full.
\<close>

datatype RingState = RingStateEmpty | RingStateFilling | RingStateFull

text \<open>
  Modelled from the spec: the parameter block \<^verbatim>\<open>Params\<close> is declared outside the
  two source files. The specification lists, among its contents, the feature flags and
  the setup flags as separate words; the controller reads the field \<^verbatim>\<open>Flags\<close>.
\<close>

record Params =
  Flags :: "32 word"
  Features :: "32 word"

text \<open>
  The submission queue as the controller uses it: the address and length of the mapping
  (\<^verbatim>\<open>ptr\<close>, \<^verbatim>\<open>Size\<close>), the two shared 32-bit counters behind the pointers
  \<^verbatim>\<open>Head\<close> and \<^verbatim>\<open>Tail\<close>, and the ring state behind \<^verbatim>\<open>state\<close>.
\<close>

record SubmitQueue =
  sq_ptr :: nat
  Size :: "32 word"
  Head :: "32 word"
  Tail :: "32 word"
  state :: RingState

record CompletionQueue =
  cq_ptr :: nat
  cq_Size :: "32 word"

text \<open>
  The ring. A \<^verbatim>\<open>nil\<close> queue pointer is \<open>None\<close>. The two mutexes guard only the
  teardown functions and have no counterpart in this sequential embedding.
\<close>

record Ring =
  fd :: int
  p :: Params
  cq :: "CompletionQueue option"
  sq :: "SubmitQueue option"
  idx :: "64 word"

text \<open>
  Errors: an errno of the kernel, or \<^verbatim>\<open>errors.Wrap(err, msg)\<close> around another error.
\<close>

datatype error = Errno nat | Wrap error string

section \<open>Construction\<close>

text \<open>
  \<^verbatim>\<open>New\<close>. The boundary functions \<^verbatim>\<open>Setup\<close> and \<^verbatim>\<open>MmapRing\<close> are external
  collaborators and are parameters here: each returns an error or its results.
\<close>

definition New ::
  "(nat \<Rightarrow> error + (int \<times> Params)) \<Rightarrow>
   (int \<Rightarrow> Params \<Rightarrow> error + (SubmitQueue \<times> CompletionQueue)) \<Rightarrow>
   nat \<Rightarrow> error + Ring" where
  "New Setup MmapRing entries =
     (case Setup entries of
        Inl err \<Rightarrow> Inl err
      | Inr (fd', p') \<Rightarrow>
          (case MmapRing fd' p' of
             Inl err \<Rightarrow> Inl err
           | Inr (sq', cq') \<Rightarrow>
               Inr \<lparr>fd = fd', p = p', cq = Some cq',
                    sq = Some (sq'\<lparr>state := RingStateEmpty\<rparr>), idx = 0\<rparr>))"

section \<open>Request identifiers\<close>

text \<open>\<^verbatim>\<open>atomic.AddUint64(addr, delta)\<close>: adds and returns the new value.\<close>

definition AddUint64 :: "64 word \<Rightarrow> 64 word \<Rightarrow> 64 word \<times> 64 word" where
  "AddUint64 cell delta = (cell + delta, cell + delta)"

text \<open>\<^verbatim>\<open>Idx\<close>: the returned identifier and the ring with the counter updated.\<close>

definition Idx :: "Ring \<Rightarrow> 64 word \<times> Ring" where
  "Idx r = (case AddUint64 (idx r) 1 of (v, cell) \<Rightarrow> (v, r\<lparr>idx := cell\<rparr>))"

text \<open>
  A run of \<open>n\<close> calls of \<^verbatim>\<open>Idx\<close> on the same ring. The increment is atomic, so
  the calls of any number of threads take effect one after the other, in some order.
\<close>

fun Idx_calls :: "nat \<Rightarrow> Ring \<Rightarrow> 64 word list \<times> Ring" where
  "Idx_calls 0 r = ([], r)"
| "Idx_calls (Suc n) r =
     (case Idx r of (v, r1) \<Rightarrow>
        (case Idx_calls n r1 of (vs, r2) \<Rightarrow> (v # vs, r2)))"

section \<open>The kernel boundary\<close>

text \<open>
  What the controller does to the outside world, in the order it does it: the submit
  barrier, the enter call (descriptor, counts, flags, signal mask), an unmap (address,
  length) and the closing of a descriptor.
\<close>

datatype event =
    SubmitBarrier
  | EnterCall int nat nat nat "64 word list option"
  | Munmap nat nat
  | CloseFd int

text \<open>
  The kernel is a parameter: from the calls made so far and the call made now it gives
  the errno of the call, 0 for success.
\<close>

type_synonym kernel = "event list \<Rightarrow> event \<Rightarrow> nat"

definition syscall :: "kernel \<Rightarrow> event \<Rightarrow> event list \<Rightarrow> nat \<times> event list" where
  "syscall k e tr = (k tr e, tr @ [e])"

text \<open>\<^verbatim>\<open>syscall.Close(fd)\<close>: \<^verbatim>\<open>nil\<close> or the errno as an error.\<close>

definition syscall_Close :: "kernel \<Rightarrow> int \<Rightarrow> event list \<Rightarrow> error option \<times> event list" where
  "syscall_Close k d tr =
     (case syscall k (CloseFd d) tr of
        (errno, tr1) \<Rightarrow> (if errno \<noteq> 0 then Some (Errno errno) else None, tr1))"

text \<open>
  Modelled from the spec: the package-level \<^verbatim>\<open>Enter\<close> is the kernel boundary call
  \<^verbatim>\<open>enter(fd, toSubmit, minComplete, flags, signalMask) -> submittedCount | error\<close>
  and is declared outside the two source files.
\<close>

definition Enter ::
  "kernel \<Rightarrow> int \<Rightarrow> nat \<Rightarrow> nat \<Rightarrow> nat \<Rightarrow> 64 word list option \<Rightarrow> event list \<Rightarrow>
   error option \<times> event list" where
  "Enter k d toSubmit minComplete flags sigset tr =
     (case syscall k (EnterCall d toSubmit minComplete flags sigset) tr of
        (errno, tr1) \<Rightarrow> (if errno \<noteq> 0 then Some (Errno errno) else None, tr1))"

text \<open>
  Modelled from the spec: \<^verbatim>\<open>submitBarrier\<close> is a method of the submission queue
  declared outside the two source files. The specification describes it as a memory
  fence that makes the writes to the allocated entries visible before the kernel is
  entered; the ring state changes only after a successful enter.
\<close>

definition submitBarrier :: "SubmitQueue \<Rightarrow> event list \<Rightarrow> SubmitQueue \<times> event list" where
  "submitBarrier q tr = (q, tr @ [SubmitBarrier])"

text \<open>
  Modelled from the spec: \<^verbatim>\<open>empty\<close> is a method of the submission queue declared
  outside the two source files. The specification says that it transitions the ring
  state back to Empty.
\<close>

definition sq_empty :: "SubmitQueue \<Rightarrow> SubmitQueue" where
  "sq_empty q = q\<lparr>state := RingStateEmpty\<rparr>"

section \<open>Entering the ring\<close>

text \<open>
  The method \<^verbatim>\<open>(r *Ring) Enter\<close>. \<open>None\<close> is the panic of a \<^verbatim>\<open>nil\<close> submission
  queue; otherwise the returned error, the ring and the calls made.
\<close>

definition Ring_Enter ::
  "kernel \<Rightarrow> Ring \<Rightarrow> int \<Rightarrow> nat \<Rightarrow> nat \<Rightarrow> nat \<Rightarrow> 64 word list option \<Rightarrow> event list \<Rightarrow>
   (error option \<times> Ring \<times> event list) option" where
  "Ring_Enter k r d toSubmit minComplete flags sigset tr =
     (case sq r of
        None \<Rightarrow> None
      | Some q \<Rightarrow>
          (case submitBarrier q tr of
             (q1, tr1) \<Rightarrow>
               (case Enter k d toSubmit minComplete flags sigset tr1 of
                  (Some err, tr2) \<Rightarrow> Some (Some err, r\<lparr>sq := Some q1\<rparr>, tr2)
                | (None, tr2) \<Rightarrow> Some (None, r\<lparr>sq := Some (sq_empty q1)\<rparr>, tr2))))"

section \<open>Teardown\<close>

definition closeCq :: "kernel \<Rightarrow> Ring \<Rightarrow> event list \<Rightarrow> error option \<times> Ring \<times> event list" where
  "closeCq k r tr =
     (case cq r of
        None \<Rightarrow> (None, r, tr)
      | Some c \<Rightarrow>
          (case syscall k (Munmap (cq_ptr c) (unat (cq_Size c))) tr of
             (errno, tr1) \<Rightarrow>
               if errno \<noteq> 0
               then (Some (Wrap (Errno errno) ''failed to munmap cq ring''), r, tr1)
               else (None, r\<lparr>cq := None\<rparr>, tr1)))"

definition closeSq :: "kernel \<Rightarrow> Ring \<Rightarrow> event list \<Rightarrow> error option \<times> Ring \<times> event list" where
  "closeSq k r tr =
     (case sq r of
        None \<Rightarrow> (None, r, tr)
      | Some q \<Rightarrow>
          (case syscall k (Munmap (sq_ptr q) (unat (Size q))) tr of
             (errno, tr1) \<Rightarrow>
               if errno \<noteq> 0
               then (Some (Wrap (Errno errno) ''failed to munmap sq ring''), r, tr1)
               else (None, r\<lparr>sq := None\<rparr>, tr1)))"

text \<open>\<^verbatim>\<open>Close\<close>: the returned error, the ring afterwards and the calls made.\<close>

definition Close :: "kernel \<Rightarrow> Ring \<Rightarrow> event list \<Rightarrow> error option \<times> Ring \<times> event list" where
  "Close k r tr =
     (case closeSq k r tr of
        (Some err, r1, tr1) \<Rightarrow> (Some err, r1, tr1)
      | (None, r1, tr1) \<Rightarrow>
          if Flags (p r1) AND FeatSingleMmap = 0
          then (case closeCq k r1 tr1 of
                  (Some err, r2, tr2) \<Rightarrow> (Some err, r2, tr2)
                | (None, r2, tr2) \<Rightarrow>
                    (case syscall_Close k (fd r2) tr2 of (res, tr3) \<Rightarrow> (res, r2, tr3)))
          else (case syscall_Close k (fd r1) tr1 of (res, tr3) \<Rightarrow> (res, r1, tr3)))"

section \<open>Slot allocation\<close>

text \<open>
  The counters \<^verbatim>\<open>Head\<close> and \<^verbatim>\<open>Tail\<close> live in memory shared with the other
  threads and with the kernel, which may run between any two atomic operations of a
  call. A schedule lists, for each atomic operation in turn, what the others did just
  before it: \<open>None\<close> for nothing, \<open>Some (h, t)\<close> when they left \<^verbatim>\<open>Head\<close> at \<open>h\<close>
  and \<^verbatim>\<open>Tail\<close> at \<open>t\<close>. After the end of the schedule the others are quiet; the
  empty schedule is the single-threaded run.
\<close>

type_synonym interference = "(32 word \<times> 32 word) option"

definition interfere :: "interference \<Rightarrow> SubmitQueue \<Rightarrow> SubmitQueue" where
  "interfere e q = (case e of None \<Rightarrow> q | Some (h, t) \<Rightarrow> q\<lparr>Head := h, Tail := t\<rparr>)"

definition pending :: "interference list \<Rightarrow> interference" where
  "pending es = (case es of [] \<Rightarrow> None | e # _ \<Rightarrow> e)"

text \<open>The atomic operations on the two counters, each with the value it returns.\<close>

definition AddUint32_Head :: "32 word \<Rightarrow> SubmitQueue \<Rightarrow> 32 word \<times> SubmitQueue" where
  "AddUint32_Head delta q = (Head q + delta, q\<lparr>Head := Head q + delta\<rparr>)"

definition CompareAndSwapUint32_Head ::
  "32 word \<Rightarrow> 32 word \<Rightarrow> SubmitQueue \<Rightarrow> bool \<times> SubmitQueue" where
  "CompareAndSwapUint32_Head old new q =
     (if Head q = old then (True, q\<lparr>Head := new\<rparr>) else (False, q))"

definition LoadUint32_Tail :: "SubmitQueue \<Rightarrow> 32 word" where
  "LoadUint32_Tail q = Tail q"

text \<open>What a call does, step by step, with the values it saw.\<close>

datatype step =
    AtomicAddHead "32 word"
  | CasHead "32 word" "32 word" bool
  | AtomicLoadTail "32 word"
  | Gosched

text \<open>
  The body of \<^verbatim>\<open>Sqe\<close> on a queue. The first argument bounds the number of passes
  through the label \<^verbatim>\<open>getIdx\<close>: \<open>None\<close> means the call is still spinning after that
  many passes. A returning call gives the value \<open>v\<close>, the steps it made, the rest of
  the schedule and the queue.
\<close>

fun Sqe_loop ::
  "nat \<Rightarrow> interference list \<Rightarrow> step list \<Rightarrow> SubmitQueue \<Rightarrow>
   (32 word \<times> step list \<times> interference list \<times> SubmitQueue) option" where
  "Sqe_loop 0 es tr q = None"
| "Sqe_loop (Suc n) es tr q =
     (case AddUint32_Head 1 (interfere (pending es) q) of
        (v, q1) \<Rightarrow>
          (case (if v = Size q1
                 then (case CompareAndSwapUint32_Head v 0 (interfere (pending (tl es)) q1) of
                         (ok, q2) \<Rightarrow> (ok, q2, tl (tl es), [AtomicAddHead v, CasHead v 0 ok]))
                 else (True, q1, tl es, [AtomicAddHead v])) of
             (ok, q2, es2, tr2) \<Rightarrow>
               if \<not> ok then Sqe_loop n es2 (tr @ tr2 @ [Gosched]) q2
               else
                 (case interfere (pending es2) q2 of
                    q3 \<Rightarrow>
                      (case LoadUint32_Tail q3 of
                         tail \<Rightarrow>
                           if tail \<noteq> v
                           then Some (v, tr @ tr2 @ [AtomicLoadTail tail], tl es2, q3)
                           else Sqe_loop n (tl es2)
                                  (tr @ tr2 @ [AtomicLoadTail tail, Gosched]) q3))))"

text \<open>
  \<^verbatim>\<open>Sqe\<close> on the ring: a \<^verbatim>\<open>nil\<close> submission queue panics, a call that has not
  returned within the bound is still spinning, and a returning call gives \<^verbatim>\<open>int(v)\<close>.
\<close>

datatype stop = NilDereference | StillSpinning

definition Sqe ::
  "nat \<Rightarrow> interference list \<Rightarrow> Ring \<Rightarrow> stop + (int \<times> interference list \<times> Ring)" where
  "Sqe n es r =
     (case sq r of
        None \<Rightarrow> Inl NilDereference
      | Some q \<Rightarrow>
          (case Sqe_loop n es [] q of
             None \<Rightarrow> Inl StillSpinning
           | Some (v, tr, es1, q1) \<Rightarrow> Inr (uint v, es1, r\<lparr>sq := Some q1\<rparr>)))"

text \<open>
  A single thread calling \<^verbatim>\<open>Sqe\<close> \<open>k\<close> times in a row with nobody else running:
  the values returned, in order, and the ring afterwards.
\<close>

fun Sqe_calls :: "nat \<Rightarrow> nat \<Rightarrow> Ring \<Rightarrow> stop + (int list \<times> Ring)" where
  "Sqe_calls n 0 r = Inr ([], r)"
| "Sqe_calls n (Suc k) r =
     (case Sqe n [] r of
        Inl s \<Rightarrow> Inl s
      | Inr (i, es1, r1) \<Rightarrow>
          (case Sqe_calls n k r1 of
             Inl s \<Rightarrow> Inl s
           | Inr (is, r2) \<Rightarrow> Inr (i # is, r2)))"

text \<open>
  The allocation algorithm in the words of the specification, on the same shared
  counters and schedules: (1) atomically increment the head counter, obtaining the
  candidate \<open>v\<close>; (2) if \<open>v\<close> equals the ring size, attempt an atomic compare-and-swap
  of head from \<open>v\<close> to 0 and, on failure, yield and retry from step 1; (3) read the
  tail atomically and, if the tail is not \<open>v\<close>, return \<open>v\<close>; (4) if the tail equals
  \<open>v\<close>, yield and retry from step 1.
\<close>

definition acquire_pass ::
  "interference list \<Rightarrow> SubmitQueue \<Rightarrow>
   32 word option \<times> step list \<times> interference list \<times> SubmitQueue" where
  "acquire_pass es m =
     (let m0 = interfere (pending es) m;
          v = Head m0 + 1;
          m1 = m0\<lparr>Head := v\<rparr>
      in if v = Size m
         then
           (let m2 = interfere (pending (tl es)) m1
            in if Head m2 = v
               then
                 (let m3 = interfere (pending (tl (tl es))) (m2\<lparr>Head := 0\<rparr>)
                  in (if Tail m3 \<noteq> v then Some v else None,
                      [AtomicAddHead v, CasHead v 0 True, AtomicLoadTail (Tail m3)],
                      tl (tl (tl es)), m3))
               else (None, [AtomicAddHead v, CasHead v 0 False], tl (tl es), m2))
         else
           (let m3 = interfere (pending (tl es)) m1
            in (if Tail m3 \<noteq> v then Some v else None,
                [AtomicAddHead v, AtomicLoadTail (Tail m3)], tl (tl es), m3)))"

text \<open>
  One pass either returns the slot or ends in a yield and a retry from step 1. As for
  the source, the first argument bounds the number of passes.
\<close>

fun acquireSlot ::
  "nat \<Rightarrow> interference list \<Rightarrow> step list \<Rightarrow> SubmitQueue \<Rightarrow>
   (32 word \<times> step list \<times> interference list \<times> SubmitQueue) option" where
  "acquireSlot 0 es tr m = None"
| "acquireSlot (Suc n) es tr m =
     (case acquire_pass es m of
        (Some v, st, es1, m1) \<Rightarrow> Some (v, tr @ st, es1, m1)
      | (None, st, es1, m1) \<Rightarrow> acquireSlot n es1 (tr @ st @ [Gosched]) m1)"

section \<open>Concrete rings and kernels\<close>

text \<open>
  A ring as \<^verbatim>\<open>New\<close> leaves it, with the given size and parameters: descriptor 3,
  the submission region at 4096, the completion region at 8192, both counters at 0.
\<close>

definition ring_of_size :: "32 word \<Rightarrow> Params \<Rightarrow> Ring" where
  "ring_of_size n ps =
     \<lparr>fd = 3, p = ps,
      cq = Some \<lparr>cq_ptr = 8192, cq_Size = n\<rparr>,
      sq = Some \<lparr>sq_ptr = 4096, Size = n, Head = 0, Tail = 0, state = RingStateEmpty\<rparr>,
      idx = 0\<rparr>"

text \<open>A kernel where every call succeeds, and one where a single call fails.\<close>

definition kernel_ok :: kernel where
  "kernel_ok tr e = 0"

definition kernel_failing :: "event \<Rightarrow> nat \<Rightarrow> kernel" where
  "kernel_failing bad errno tr e = (if e = bad then errno else 0)"

text \<open>
  A kernel that keeps track of descriptors: every call succeeds, except that closing a
  descriptor that was closed before answers \<^verbatim>\<open>EBADF\<close>.
\<close>

definition EBADF :: nat where
  "EBADF = 9"

definition kernel_closes_once :: kernel where
  "kernel_closes_once tr e =
     (case e of
        CloseFd d \<Rightarrow> if CloseFd d \<in> set tr then EBADF else 0
      | _ \<Rightarrow> 0)"

section \<open>Results about the constants\<close>

text \<open>
  Claim C9. The memory-layout constants carry the documented kernel values: the
  submission ring is mapped at offset 0, the completion ring at 0x8000000 (that is
  \<open>2 ^ 27\<close>), the submission entries at 0x10000000 (that is \<open>2 ^ 28\<close>), and the six
  register opcodes are the consecutive values 0 to 5 in the order register buffers,
  unregister buffers, register files, unregister files, register eventfd, unregister
  eventfd.
\<close>

theorem C9_layout_constants:
  "SqRingOffset = 0 \<and> CqRingOffset = 0x8000000 \<and> SqeSOffset = 0x10000000 \<and>
   unat CqRingOffset = 2 ^ 27 \<and> unat SqeSOffset = 2 ^ 28 \<and>
   [RegisterBuffers, UnregisterBuffers, RegisterFiles, UnregisterFiles,
    RegisterEventfd, UnregisteREventfd] = [0, 1, 2, 3, 4, 5]"
  by (simp add: SqRingOffset_def CqRingOffset_def SqeSOffset_def RegisterBuffers_def
      UnregisterBuffers_def RegisterFiles_def UnregisterFiles_def RegisterEventfd_def
      UnregisteREventfd_def)

section \<open>Request identifiers\<close>

lemma upt_0_Suc_shift: "[0..<Suc n] = 0 # map Suc [0..<n]"
  by (simp only: map_Suc_upt upt_conv_Cons[OF zero_less_Suc])

lemma Idx_calls_eq:
  "Idx_calls n r = (map (\<lambda>i. idx r + 1 + of_nat i) [0..<n], r\<lparr>idx := idx r + of_nat n\<rparr>)"
proof (induction n arbitrary: r)
  case 0
  show ?case by simp
next
  case (Suc n)
  have "Idx_calls (Suc n) r =
        ((idx r + 1) # map (\<lambda>i. idx r + 1 + 1 + of_nat i) [0..<n],
         r\<lparr>idx := idx r + 1 + of_nat n\<rparr>)"
    by (simp add: Suc.IH Idx_def AddUint64_def del: upt_Suc)
  also have "\<dots> = (map (\<lambda>i. idx r + 1 + of_nat i) [0..<Suc n], r\<lparr>idx := idx r + of_nat (Suc n)\<rparr>)"
    unfolding upt_0_Suc_shift by (simp add: comp_def ac_simps)
  finally show ?case .
qed

lemma unat_idx_run:
  assumes "unat (c::64 word) + n < 2 ^ 64"
  shows "map (\<lambda>i. unat (c + 1 + of_nat i)) [0..<n] = [unat c + 1..<unat c + 1 + n]"
proof -
  have e: "unat (c + 1 + of_nat i) = unat c + 1 + i" if "i < n" for i
  proof -
    have "unat c + 1 + i < 2 ^ 64" using assms that by simp
    then show ?thesis
      by (simp add: unat_word_ariths unat_of_nat take_bit_eq_mod)
  qed
  have "map (\<lambda>i. unat (c + 1 + of_nat i)) [0..<n] = map (\<lambda>i. i + (unat c + 1)) [0..<n]"
    by (rule map_cong) (auto simp: e)
  also have "\<dots> = [unat c + 1..<unat c + 1 + n]"
    by (simp only: map_add_upt add.commute)
  finally show ?thesis .
qed

lemma New_idx: "New Setup MmapRing entries = Inr r \<Longrightarrow> idx r = 0"
  by (auto simp: New_def split: sum.splits prod.splits)

text \<open>
  Claim C8. A ring returned by the constructor has its identifier counter at zero.
  Every call of \<^verbatim>\<open>Idx\<close> adds one to the 64-bit counter and returns the new value.
  As long as the counter does not pass \<open>2 ^ 64 - 1\<close>, the values returned by \<open>n\<close>
  calls, whichever threads make them, are the next \<open>n\<close> numbers after the counter in
  order: strictly increasing and without repeats.
\<close>

theorem C8_Idx_strictly_increasing:
  assumes "New Setup MmapRing entries = Inr r0" and "unat (idx r) + n < 2 ^ 64"
  shows "idx r0 = 0 \<and>
         Idx r = (idx r + 1, r\<lparr>idx := idx r + 1\<rparr>) \<and>
         map unat (fst (Idx_calls n r)) = [unat (idx r) + 1..<unat (idx r) + 1 + n] \<and>
         sorted_wrt (<) (map unat (fst (Idx_calls n r))) \<and>
         distinct (fst (Idx_calls n r))"
proof -
  have run: "map unat (fst (Idx_calls n r)) = [unat (idx r) + 1..<unat (idx r) + 1 + n]"
    using unat_idx_run[OF assms(2)] by (simp add: Idx_calls_eq comp_def)
  have "distinct (map unat (fst (Idx_calls n r)))"
    unfolding run by (rule distinct_upt)
  then have "distinct (fst (Idx_calls n r))"
    by (simp add: distinct_map)
  moreover have "sorted_wrt (<) (map unat (fst (Idx_calls n r)))"
    unfolding run by (rule sorted_wrt_upt)
  moreover have "Idx r = (idx r + 1, r\<lparr>idx := idx r + 1\<rparr>)"
    by (simp add: Idx_def AddUint64_def)
  ultimately show ?thesis
    using New_idx[OF assms(1)] run by simp
qed

theorem C8_Idx_witness:
  "New (\<lambda>n. Inr (3, \<lparr>Flags = 0, Features = 1\<rparr>))
       (\<lambda>d ps. Inr (\<lparr>sq_ptr = 4096, Size = 8, Head = 0, Tail = 0, state = RingStateFull\<rparr>,
                     \<lparr>cq_ptr = 8192, cq_Size = 8\<rparr>)) 8 =
     Inr (ring_of_size 8 \<lparr>Flags = 0, Features = 1\<rparr>) \<and>
   unat (idx (ring_of_size 8 \<lparr>Flags = 0, Features = 1\<rparr>)) + 3 < (2::nat) ^ 64 \<and>
   idx (ring_of_size 8 \<lparr>Flags = 0, Features = 1\<rparr>) = 0 \<and>
   map unat (fst (Idx_calls 3 (ring_of_size 8 \<lparr>Flags = 0, Features = 1\<rparr>))) = [1, 2, 3] \<and>
   distinct (fst (Idx_calls 3 (ring_of_size 8 \<lparr>Flags = 0, Features = 1\<rparr>)))"
proof -
  let ?r = "ring_of_size 8 \<lparr>Flags = 0, Features = 1\<rparr>"
  have a: "New (\<lambda>n. Inr (3, \<lparr>Flags = 0, Features = 1\<rparr>))
       (\<lambda>d ps. Inr (\<lparr>sq_ptr = 4096, Size = 8, Head = 0, Tail = 0, state = RingStateFull\<rparr>,
                     \<lparr>cq_ptr = 8192, cq_Size = 8\<rparr>)) 8 = Inr ?r"
    by (simp add: New_def ring_of_size_def)
  have b: "unat (idx ?r) + 3 < (2::nat) ^ 64"
    by (simp add: ring_of_size_def)
  have i: "idx ?r = 0"
    by (simp add: ring_of_size_def)
  have u: "[Suc 0..<4] = [1, 2, 3]"
    by (simp add: upt_rec)
  show ?thesis
    using a b C8_Idx_strictly_increasing[OF a b] by (simp add: i u)
qed

section \<open>Slot allocation\<close>

lemma Size_interfere: "Size (interfere e q) = Size q"
  by (simp add: interfere_def split: option.splits)

text \<open>
  Claim C2. \<^verbatim>\<open>Sqe\<close> follows exactly the steps of the allocation algorithm: for every
  bound on the number of passes, every schedule of the other threads and the kernel
  and every queue, the loop of the source and the four steps of the specification
  make the same atomic operations with the same values, yield at the same points, and
  return the same slot with the same queue, or are both still spinning.
\<close>

theorem C2_Sqe_follows_allocation_steps:
  "Sqe_loop n es tr q = acquireSlot n es tr q"
proof (induction n arbitrary: es tr q)
  case 0
  show ?case by simp
next
  case (Suc n)
  show ?case
    by (simp add: Suc.IH AddUint32_Head_def CompareAndSwapUint32_Head_def
        LoadUint32_Tail_def acquire_pass_def Let_def Size_interfere)
qed








text \<open>
  Claim C1, evaluated. On a ring of size 8 with both counters at 0, nine calls of
  \<^verbatim>\<open>Sqe\<close> in a row by a single thread, with nothing drained in between, all return
  at once, with the values 1, 2, ..., 8 and then 1 again.
\<close>

theorem C1_Sqe_size_8_returns_1_to_8:
  "Sqe_calls 1 9 (ring_of_size 8 \<lparr>Flags = 0, Features = 0\<rparr>) =
     Inr ([1, 2, 3, 4, 5, 6, 7, 8, 1],
          \<lparr>fd = 3, p = \<lparr>Flags = 0, Features = 0\<rparr>,
           cq = Some \<lparr>cq_ptr = 8192, cq_Size = 8\<rparr>,
           sq = Some \<lparr>sq_ptr = 4096, Size = 8, Head = 1, Tail = 0, state = RingStateEmpty\<rparr>,
           idx = 0\<rparr>)"
  by code_simp

section \<open>Entering the ring\<close>

text \<open>
  Claim C3. On an open ring, \<^verbatim>\<open>Enter\<close> first applies the submit barrier and then
  makes the kernel enter call with the arguments it was given, and nothing else. The
  error it returns is the one the boundary call returned. When that call succeeds the
  ring state becomes Empty; when it fails the ring is left as it was.
\<close>

theorem C3_Enter_barrier_then_kernel:
  assumes "sq r = Some q"
  shows "Ring_Enter k r d toSubmit minComplete flags sigset tr =
           Some (fst (Enter k d toSubmit minComplete flags sigset (tr @ [SubmitBarrier])),
                 (if fst (Enter k d toSubmit minComplete flags sigset (tr @ [SubmitBarrier])) = None
                  then r\<lparr>sq := Some (q\<lparr>state := RingStateEmpty\<rparr>)\<rparr>
                  else r),
                 tr @ [SubmitBarrier, EnterCall d toSubmit minComplete flags sigset])"
  using assms
  by (simp add: Ring_Enter_def submitBarrier_def Enter_def syscall_def sq_empty_def)

theorem C3_Enter_witness:
  "sq (ring_of_size 8 \<lparr>Flags = 0, Features = 0\<rparr>) =
     Some \<lparr>sq_ptr = 4096, Size = 8, Head = 0, Tail = 0, state = RingStateEmpty\<rparr> \<and>
   Ring_Enter (kernel_failing (EnterCall 3 2 0 0 None) 4)
     ((ring_of_size 8 \<lparr>Flags = 0, Features = 0\<rparr>)
        \<lparr>sq := Some \<lparr>sq_ptr = 4096, Size = 8, Head = 1, Tail = 0, state = RingStateFilling\<rparr>\<rparr>)
     3 2 0 0 None [] =
     Some (Some (Errno 4),
           (ring_of_size 8 \<lparr>Flags = 0, Features = 0\<rparr>)
             \<lparr>sq := Some \<lparr>sq_ptr = 4096, Size = 8, Head = 1, Tail = 0, state = RingStateFilling\<rparr>\<rparr>,
           [SubmitBarrier, EnterCall 3 2 0 0 None]) \<and>
   Ring_Enter kernel_ok
     ((ring_of_size 8 \<lparr>Flags = 0, Features = 0\<rparr>)
        \<lparr>sq := Some \<lparr>sq_ptr = 4096, Size = 8, Head = 1, Tail = 0, state = RingStateFilling\<rparr>\<rparr>)
     3 2 0 0 None [] =
     Some (None,
           (ring_of_size 8 \<lparr>Flags = 0, Features = 0\<rparr>)
             \<lparr>sq := Some \<lparr>sq_ptr = 4096, Size = 8, Head = 1, Tail = 0, state = RingStateEmpty\<rparr>\<rparr>,
           [SubmitBarrier, EnterCall 3 2 0 0 None])"
proof -
  let ?q = "\<lparr>sq_ptr = 4096, Size = 8, Head = 1, Tail = 0, state = RingStateFilling\<rparr>"
  let ?r = "(ring_of_size 8 \<lparr>Flags = 0, Features = 0\<rparr>)\<lparr>sq := Some ?q\<rparr>"
  have a: "sq ?r = Some ?q"
    by simp
  have f: "fst (Enter (kernel_failing (EnterCall 3 2 0 0 None) 4) 3 2 0 0 None [SubmitBarrier]) =
             Some (Errno 4)"
    by (simp add: Enter_def syscall_def kernel_failing_def)
  have g: "fst (Enter kernel_ok 3 2 0 0 None [SubmitBarrier]) = None"
    by (simp add: Enter_def syscall_def kernel_ok_def)
  show ?thesis
    using C3_Enter_barrier_then_kernel[OF a, of "kernel_failing (EnterCall 3 2 0 0 None) 4" 3 2 0 0 None "[]"]
      C3_Enter_barrier_then_kernel[OF a, of kernel_ok 3 2 0 0 None "[]"]
    by (simp add: f g ring_of_size_def)
qed

section \<open>Teardown\<close>

lemma closeSq_nil: "sq r = None \<Longrightarrow> closeSq k r tr = (None, r, tr)"
  by (simp add: closeSq_def)

lemma closeCq_nil: "cq r = None \<Longrightarrow> closeCq k r tr = (None, r, tr)"
  by (simp add: closeCq_def)

lemma closeSq_fails:
  assumes "sq r = Some q" and "k tr (Munmap (sq_ptr q) (unat (Size q))) \<noteq> 0"
  shows "closeSq k r tr =
           (Some (Wrap (Errno (k tr (Munmap (sq_ptr q) (unat (Size q))))) ''failed to munmap sq ring''),
            r, tr @ [Munmap (sq_ptr q) (unat (Size q))])"
  using assms by (simp add: closeSq_def syscall_def)

lemma closeCq_fails:
  assumes "cq r = Some c" and "k tr (Munmap (cq_ptr c) (unat (cq_Size c))) \<noteq> 0"
  shows "closeCq k r tr =
           (Some (Wrap (Errno (k tr (Munmap (cq_ptr c) (unat (cq_Size c))))) ''failed to munmap cq ring''),
            r, tr @ [Munmap (cq_ptr c) (unat (cq_Size c))])"
  using assms by (simp add: closeCq_def syscall_def)

lemma closeSq_trace:
  assumes "sq r = Some q"
  shows "snd (snd (closeSq k r tr)) = tr @ [Munmap (sq_ptr q) (unat (Size q))]"
  using assms by (simp add: closeSq_def syscall_def)

lemma closeCq_trace:
  assumes "cq r = Some c"
  shows "snd (snd (closeCq k r tr)) = tr @ [Munmap (cq_ptr c) (unat (cq_Size c))]"
  using assms by (simp add: closeCq_def syscall_def)

lemma closeSq_ok:
  "closeSq k r tr = (None, r1, tr1) \<Longrightarrow> sq r1 = None \<and> cq r1 = cq r \<and> p r1 = p r \<and> fd r1 = fd r"
  by (auto simp: closeSq_def syscall_def split: option.splits if_splits)

lemma closeCq_ok:
  "closeCq k r tr = (None, r1, tr1) \<Longrightarrow> cq r1 = None \<and> sq r1 = sq r \<and> p r1 = p r \<and> fd r1 = fd r"
  by (auto simp: closeCq_def syscall_def split: option.splits if_splits)

lemma Close_ok:
  assumes "Close k r tr = (None, r1, tr1)"
  shows "sq r1 = None \<and> (Flags (p r1) AND FeatSingleMmap = 0 \<longrightarrow> cq r1 = None) \<and> fd r1 = fd r"
proof -
  obtain e ra tra where a: "closeSq k r tr = (e, ra, tra)"
    by (metis prod_cases3)
  show ?thesis
  proof (cases e)
    case (Some err)
    then show ?thesis using assms a by (simp add: Close_def)
  next
    case None
    note sqok = closeSq_ok[OF a[unfolded None]]
    show ?thesis
    proof (cases "Flags (p ra) AND FeatSingleMmap = 0")
      case False
      then show ?thesis using assms a None sqok
        by (auto simp: Close_def split: prod.splits)
    next
      case True
      obtain e2 rb trb where b: "closeCq k ra tra = (e2, rb, trb)"
        by (metis prod_cases3)
      show ?thesis
      proof (cases e2)
        case (Some err)
        then show ?thesis using assms a None True b by (simp add: Close_def)
      next
        case n2: None
        note cqok = closeCq_ok[OF b[unfolded n2]]
        show ?thesis using assms a None True b n2 sqok cqok
          by (auto simp: Close_def split: prod.splits)
      qed
    qed
  qed
qed

text \<open>
  Claim C4, evaluated. With every kernel call succeeding, \<^verbatim>\<open>Close\<close> unmaps the
  submission region first and closes the descriptor last, but whether it unmaps the
  completion region in between follows bit 0 of the word \<^verbatim>\<open>Flags\<close>, not bit 0 of
  the feature word: with the single-mmap feature reported and \<^verbatim>\<open>Flags\<close> 0 the
  completion region is unmapped as well, and with no feature reported and bit 0 of
  \<^verbatim>\<open>Flags\<close> set (the setup flag \<^verbatim>\<open>SetupIOPoll\<close>) it is left mapped.
\<close>

theorem C4_Close_tests_Flags_not_Features:
  "Features \<lparr>Flags = 0, Features = FeatSingleMmap\<rparr> AND FeatSingleMmap \<noteq> 0 \<and>
   snd (snd (Close kernel_ok (ring_of_size 8 \<lparr>Flags = 0, Features = FeatSingleMmap\<rparr>) [])) =
     [Munmap 4096 8, Munmap 8192 8, CloseFd 3] \<and>
   Features \<lparr>Flags = SetupIOPoll, Features = 0\<rparr> AND FeatSingleMmap = 0 \<and>
   snd (snd (Close kernel_ok (ring_of_size 8 \<lparr>Flags = SetupIOPoll, Features = 0\<rparr>) [])) =
     [Munmap 4096 8, CloseFd 3]"
  by (simp add: Close_def closeSq_def closeCq_def syscall_Close_def syscall_def kernel_ok_def
      ring_of_size_def FeatSingleMmap_def SetupIOPoll_def)

text \<open>
  After a \<^verbatim>\<open>Close\<close> that returned no error, a second \<^verbatim>\<open>Close\<close> finds both
  queue pointers it would unmap cleared: it unmaps nothing and makes exactly one call,
  the closing of the descriptor, whose answer it returns.
\<close>

lemma second_Close_only_closes_descriptor:
  assumes "Close k r tr = (None, r1, tr1)"
  shows "Close k r1 tr1 =
           (if k tr1 (CloseFd (fd r)) \<noteq> 0 then Some (Errno (k tr1 (CloseFd (fd r)))) else None,
            r1, tr1 @ [CloseFd (fd r)])"
proof -
  from Close_ok[OF assms]
  have s: "sq r1 = None" and c: "Flags (p r1) AND FeatSingleMmap = 0 \<longrightarrow> cq r1 = None"
    and f: "fd r1 = fd r" by simp_all
  show ?thesis
  proof (cases "Flags (p r1) AND FeatSingleMmap = 0")
    case True
    then have "cq r1 = None" using c by simp
    then show ?thesis using s True f
      by (simp add: Close_def closeSq_nil closeCq_nil syscall_Close_def syscall_def)
  next
    case False
    then show ?thesis using s f
      by (simp add: Close_def closeSq_nil syscall_Close_def syscall_def)
  qed
qed

text \<open>
  Claim C5, evaluated. The two unmap steps are guarded by their queue pointers, the
  closing of the descriptor is not. With a kernel that keeps track of descriptors the
  first \<^verbatim>\<open>Close\<close> succeeds and the second one does not panic and unmaps nothing, but
  closes descriptor 3 again and returns the error \<^verbatim>\<open>EBADF\<close>. With a kernel that
  accepts the call, as when the number 3 has been given to another open file in the
  meantime, the second \<^verbatim>\<open>Close\<close> closes that descriptor and returns no error.
\<close>

theorem C5_second_Close_closes_descriptor_again:
  "Close kernel_closes_once (ring_of_size 8 \<lparr>Flags = 0, Features = 0\<rparr>) [] =
     (None, (ring_of_size 8 \<lparr>Flags = 0, Features = 0\<rparr>)\<lparr>cq := None, sq := None\<rparr>,
      [Munmap 4096 8, Munmap 8192 8, CloseFd 3]) \<and>
   Close kernel_closes_once
     ((ring_of_size 8 \<lparr>Flags = 0, Features = 0\<rparr>)\<lparr>cq := None, sq := None\<rparr>)
     [Munmap 4096 8, Munmap 8192 8, CloseFd 3] =
     (Some (Errno EBADF),
      (ring_of_size 8 \<lparr>Flags = 0, Features = 0\<rparr>)\<lparr>cq := None, sq := None\<rparr>,
      [Munmap 4096 8, Munmap 8192 8, CloseFd 3, CloseFd 3]) \<and>
   Close kernel_ok
     ((ring_of_size 8 \<lparr>Flags = 0, Features = 0\<rparr>)\<lparr>cq := None, sq := None\<rparr>)
     [Munmap 4096 8, Munmap 8192 8, CloseFd 3] =
     (None,
      (ring_of_size 8 \<lparr>Flags = 0, Features = 0\<rparr>)\<lparr>cq := None, sq := None\<rparr>,
      [Munmap 4096 8, Munmap 8192 8, CloseFd 3, CloseFd 3])"
  by (simp add: Close_def closeSq_def closeCq_def syscall_Close_def syscall_def
      kernel_closes_once_def kernel_ok_def EBADF_def ring_of_size_def FeatSingleMmap_def)

text \<open>
  Claim C6 as stated fails: with the unmap of the submission region failing, \<^verbatim>\<open>Close\<close>
  makes that one call and no other, so the completion region is not unmapped.
\<close>

theorem C6_later_unmap_not_attempted:
  "fst (closeSq (kernel_failing (Munmap 4096 8) 22)
          (ring_of_size 8 \<lparr>Flags = 0, Features = 0\<rparr>) []) \<noteq> None \<and>
   snd (snd (Close (kernel_failing (Munmap 4096 8) 22)
               (ring_of_size 8 \<lparr>Flags = 0, Features = 0\<rparr>) [])) = [Munmap 4096 8] \<and>
   Munmap 8192 8 \<notin> set (snd (snd (Close (kernel_failing (Munmap 4096 8) 22)
                                     (ring_of_size 8 \<lparr>Flags = 0, Features = 0\<rparr>) [])))"
  by (simp add: Close_def closeSq_def syscall_def kernel_failing_def ring_of_size_def)

text \<open>
  Claim C6, amended. When the unmap of the submission region fails, \<^verbatim>\<open>Close\<close> stops
  there: it returns that first error, wrapped with the message of the submission ring,
  makes no further call (no unmap of the completion region, no closing of the
  descriptor) and leaves the ring as it was.
\<close>

theorem C6_Close_stops_at_first_failed_unmap:
  assumes "sq r = Some q" and "k tr (Munmap (sq_ptr q) (unat (Size q))) \<noteq> 0"
  shows "Close k r tr =
           (Some (Wrap (Errno (k tr (Munmap (sq_ptr q) (unat (Size q))))) ''failed to munmap sq ring''),
            r, tr @ [Munmap (sq_ptr q) (unat (Size q))])"
  using closeSq_fails[of r q k tr] assms by (simp add: Close_def)

theorem C6_Close_stops_witness:
  "sq (ring_of_size 8 \<lparr>Flags = 0, Features = 0\<rparr>) =
     Some \<lparr>sq_ptr = 4096, Size = 8, Head = 0, Tail = 0, state = RingStateEmpty\<rparr> \<and>
   kernel_failing (Munmap 4096 8) 22 [] (Munmap 4096 8) \<noteq> 0 \<and>
   Close (kernel_failing (Munmap 4096 8) 22) (ring_of_size 8 \<lparr>Flags = 0, Features = 0\<rparr>) [] =
     (Some (Wrap (Errno 22) ''failed to munmap sq ring''),
      ring_of_size 8 \<lparr>Flags = 0, Features = 0\<rparr>, [Munmap 4096 8])"
proof -
  let ?q = "\<lparr>sq_ptr = 4096, Size = 8, Head = 0, Tail = 0, state = RingStateEmpty\<rparr>"
  have a: "sq (ring_of_size 8 \<lparr>Flags = 0, Features = 0\<rparr>) = Some ?q"
    by (simp add: ring_of_size_def)
  have b: "kernel_failing (Munmap 4096 8) 22 [] (Munmap (sq_ptr ?q) (unat (Size ?q))) \<noteq> 0"
    by (simp add: kernel_failing_def)
  show ?thesis
    using a b C6_Close_stops_at_first_failed_unmap[of "ring_of_size 8 \<lparr>Flags = 0, Features = 0\<rparr>" ?q
        "kernel_failing (Munmap 4096 8) 22" "[]"]
    by (simp add: kernel_failing_def)
qed

text \<open>
  Claim C7 as stated fails: after a failed unmap the queue pointer is still set, and a
  second \<^verbatim>\<open>Close\<close> unmaps the same region again. Shown for the completion region,
  whose unmap fails twice here.
\<close>

theorem C7_reference_kept_and_unmap_retried:
  "Close (kernel_failing (Munmap 8192 8) 12) (ring_of_size 8 \<lparr>Flags = 0, Features = 0\<rparr>) [] =
     (Some (Wrap (Errno 12) ''failed to munmap cq ring''),
      (ring_of_size 8 \<lparr>Flags = 0, Features = 0\<rparr>)\<lparr>sq := None\<rparr>,
      [Munmap 4096 8, Munmap 8192 8]) \<and>
   cq ((ring_of_size 8 \<lparr>Flags = 0, Features = 0\<rparr>)\<lparr>sq := None\<rparr>) \<noteq> None \<and>
   snd (snd (Close (kernel_failing (Munmap 8192 8) 12)
               ((ring_of_size 8 \<lparr>Flags = 0, Features = 0\<rparr>)\<lparr>sq := None\<rparr>)
               [Munmap 4096 8, Munmap 8192 8])) =
     [Munmap 4096 8, Munmap 8192 8, Munmap 8192 8]"
  by (simp add: Close_def closeSq_def closeCq_def syscall_def kernel_failing_def
      ring_of_size_def FeatSingleMmap_def)

text \<open>
  Claim C7, amended. When the unmap of a region fails, the error is reported to the
  caller, wrapped with the message of that region, and the ring keeps its pointer to
  the queue: the pointer is cleared only after a successful unmap. A retry therefore
  unmaps the same region again.
\<close>

theorem C7_failed_unmap_keeps_pointer:
  "(sq r = Some q \<and> k tr (Munmap (sq_ptr q) (unat (Size q))) \<noteq> 0 \<longrightarrow>
      closeSq k r tr =
        (Some (Wrap (Errno (k tr (Munmap (sq_ptr q) (unat (Size q))))) ''failed to munmap sq ring''),
         r, tr @ [Munmap (sq_ptr q) (unat (Size q))]) \<and>
      snd (snd (closeSq k r (tr @ [Munmap (sq_ptr q) (unat (Size q))]))) =
        tr @ [Munmap (sq_ptr q) (unat (Size q)), Munmap (sq_ptr q) (unat (Size q))]) \<and>
   (cq r = Some c \<and> k tr (Munmap (cq_ptr c) (unat (cq_Size c))) \<noteq> 0 \<longrightarrow>
      closeCq k r tr =
        (Some (Wrap (Errno (k tr (Munmap (cq_ptr c) (unat (cq_Size c))))) ''failed to munmap cq ring''),
         r, tr @ [Munmap (cq_ptr c) (unat (cq_Size c))]) \<and>
      snd (snd (closeCq k r (tr @ [Munmap (cq_ptr c) (unat (cq_Size c))]))) =
        tr @ [Munmap (cq_ptr c) (unat (cq_Size c)), Munmap (cq_ptr c) (unat (cq_Size c))]) \<and>
   (sq r = Some q \<and> k tr (Munmap (sq_ptr q) (unat (Size q))) = 0 \<longrightarrow>
      closeSq k r tr = (None, r\<lparr>sq := None\<rparr>, tr @ [Munmap (sq_ptr q) (unat (Size q))])) \<and>
   (cq r = Some c \<and> k tr (Munmap (cq_ptr c) (unat (cq_Size c))) = 0 \<longrightarrow>
      closeCq k r tr = (None, r\<lparr>cq := None\<rparr>, tr @ [Munmap (cq_ptr c) (unat (cq_Size c))]))"
proof -
  have "closeSq k r tr = (None, r\<lparr>sq := None\<rparr>, tr @ [Munmap (sq_ptr q) (unat (Size q))])"
    if "sq r = Some q" and "k tr (Munmap (sq_ptr q) (unat (Size q))) = 0"
    using that by (simp add: closeSq_def syscall_def)
  moreover have "closeCq k r tr = (None, r\<lparr>cq := None\<rparr>, tr @ [Munmap (cq_ptr c) (unat (cq_Size c))])"
    if "cq r = Some c" and "k tr (Munmap (cq_ptr c) (unat (cq_Size c))) = 0"
    using that by (simp add: closeCq_def syscall_def)
  ultimately show ?thesis
    using closeSq_fails[of r q k tr] closeCq_fails[of r c k tr]
      closeSq_trace[of r q k "tr @ [Munmap (sq_ptr q) (unat (Size q))]"]
      closeCq_trace[of r c k "tr @ [Munmap (cq_ptr c) (unat (cq_Size c))]"]
    by simp
qed

theorem C7_failed_unmap_witness:
  "closeSq (\<lambda>tr e. 22) (ring_of_size 8 \<lparr>Flags = 0, Features = 0\<rparr>) [] =
     (Some (Wrap (Errno 22) ''failed to munmap sq ring''),
      ring_of_size 8 \<lparr>Flags = 0, Features = 0\<rparr>, [Munmap 4096 8]) \<and>
   closeCq (\<lambda>tr e. 22) (ring_of_size 8 \<lparr>Flags = 0, Features = 0\<rparr>) [] =
     (Some (Wrap (Errno 22) ''failed to munmap cq ring''),
      ring_of_size 8 \<lparr>Flags = 0, Features = 0\<rparr>, [Munmap 8192 8]) \<and>
   closeSq kernel_ok (ring_of_size 8 \<lparr>Flags = 0, Features = 0\<rparr>) [] =
     (None, (ring_of_size 8 \<lparr>Flags = 0, Features = 0\<rparr>)\<lparr>sq := None\<rparr>, [Munmap 4096 8]) \<and>
   closeCq kernel_ok (ring_of_size 8 \<lparr>Flags = 0, Features = 0\<rparr>) [] =
     (None, (ring_of_size 8 \<lparr>Flags = 0, Features = 0\<rparr>)\<lparr>cq := None\<rparr>, [Munmap 8192 8])"
proof -
  let ?r = "ring_of_size 8 \<lparr>Flags = 0, Features = 0\<rparr>"
  let ?q = "\<lparr>sq_ptr = 4096, Size = 8, Head = 0, Tail = 0, state = RingStateEmpty\<rparr>"
  let ?c = "\<lparr>cq_ptr = 8192, cq_Size = 8\<rparr>"
  have a: "sq ?r = Some ?q" "cq ?r = Some ?c"
    by (simp_all add: ring_of_size_def)
  show ?thesis
    using C7_failed_unmap_keeps_pointer[of ?r ?q "\<lambda>tr e. 22" "[]" ?c]
      C7_failed_unmap_keeps_pointer[of ?r ?q kernel_ok "[]" ?c] a
    by (simp add: kernel_ok_def)
qed

end
